theory Spec2Isabelle
  imports Main "HOL-Library.AList"
begin

section \<open>Juju storage event handling of the MicroCeph charm (src/storage.py)\<close>

text \<open>
  A shallow embedding of the class \<open>StorageHandler\<close>. The handler keeps one piece of
  persistent state, \<open>_stored.osd_data\<close>, and talks to three collaborators whose code is
  not part of the file: the \<open>microceph\<close> module (backend commands), the Juju hook tools
  reached through \<open>_run\<close>, and the charm object (\<open>ready_for_service\<close>, status). The
  collaborators are parameters of the model (the record \<open>env\<close>); every call made to them
  is appended to a trace, so that statements about which calls happen, and in which
  order, are statements about that list.
\<close>

subsection \<open>Data model\<close>

text \<open>
  The value \<open>_save_osd_data\<close> stores under an OSD number: a dict with exactly the keys
  \<open>disk_by_id\<close>, \<open>disk\<close> and \<open>db\<close>, the last one possibly \<open>None\<close>.
\<close>

record osd_record =
  disk_by_id :: string
  disk :: string
  db :: "string option"

text \<open>
  \<open>osd_data\<close> is a Python dict with int keys whose values are such a dict or \<open>None\<close>
  (the value written by \<open>_clean_stale_osd_data\<close>). Iteration order is insertion order, and
  \<open>_get_osd_id\<close> returns the first match, so the dict is an association list;
  assignment \<open>d[k] = v\<close> is \<open>AList.update k v\<close> (in place for a present key, appended for
  a new one).
\<close>

type_synonym registry = "(int \<times> osd_record option) list"

text \<open>The exceptions that travel through the handler.\<close>

datatype exn =
    CalledProcessError string   \<comment> \<open>carries \<open>stderr\<close>\<close>
  | TimeoutExpired
  | OSError bool                \<comment> \<open>\<open>True\<close>: \<open>errno == ENOENT\<close>\<close>
  | KeyError string
  | TypeError
  | RetryError                  \<comment> \<open>raised by the retry decorator when it gives up\<close>
  | BlockedExceptionError string

subsection \<open>Strings\<close>

text \<open>\<open>name.split("/")[0]\<close>: the part of the name before the first slash.\<close>

definition split_head :: "string \<Rightarrow> string" where
  "split_head name = takeWhile (\<lambda>c. c \<noteq> CHR ''/'') name"

fun starts_with :: "string \<Rightarrow> string \<Rightarrow> bool" where
  "starts_with s [] = True"
| "starts_with [] (p # ps) = False"
| "starts_with (c # cs) (p # ps) = (c = p \<and> starts_with cs ps)"

text \<open>Python's \<open>needle in text\<close> on strings.\<close>

fun str_in :: "string \<Rightarrow> string \<Rightarrow> bool" where
  "str_in needle [] = (needle = [])"
| "str_in needle (c # cs) = (starts_with (c # cs) needle \<or> str_in needle cs)"

definition standalone :: string where
  "standalone = ''osd-standalone''"

definition is_safety_failure :: "string \<Rightarrow> bool" where
  "is_safety_failure err = str_in ''need at least 3 OSDs'' err"

subsection \<open>Handle resolution: \<open>_get_osd_id\<close>\<close>

text \<open>\<open>v[directive]\<close> on a stored record; an unknown key raises \<open>KeyError\<close>.\<close>

definition record_get :: "osd_record \<Rightarrow> string \<Rightarrow> exn + string option" where
  "record_get v key =
     (if key = ''disk_by_id'' then Inr (Some (disk_by_id v))
      else if key = ''disk'' then Inr (Some (disk v))
      else if key = ''db'' then Inr (db v)
      else Inl (KeyError key))"

text \<open>
  The loop over \<open>dict(self._stored.osd_data).items()\<close>. A \<open>None\<close> value is skipped by the
  test \<open>v and ...\<close> before \<open>v[directive]\<close> is evaluated.
\<close>

fun get_osd_id_loop :: "string \<Rightarrow> string \<Rightarrow> registry \<Rightarrow> exn + int option" where
  "get_osd_id_loop directive name [] = Inr None"
| "get_osd_id_loop directive name ((k, None) # rest) = get_osd_id_loop directive name rest"
| "get_osd_id_loop directive name ((k, Some v) # rest) =
     (case record_get v directive of
        Inl e \<Rightarrow> Inl e
      | Inr field \<Rightarrow>
          if field = Some name then Inr (Some k)
          else get_osd_id_loop directive name rest)"

definition get_osd_id :: "registry \<Rightarrow> string \<Rightarrow> exn + int option" where
  "get_osd_id osd_data name =
     (let directive = split_head name;
          directive = (if directive = standalone then ''disk'' else directive)
      in get_osd_id_loop directive name osd_data)"

subsection \<open>Collaborators, state and trace\<close>

datatype status = MaintenanceStatus string | ActiveStatus string

text \<open>One entry per call that leaves the handler, in the order the calls are made.\<close>

datatype call =
    RemoveDiskCmd "int option" bool         \<comment> \<open>\<open>microceph.remove_disk_cmd(osd_num, force)\<close>\<close>
  | ListDiskCmd                             \<comment> \<open>\<open>microceph.list_disk_cmd()\<close>\<close>
  | EnrollDisksAsOsds "string option list"  \<comment> \<open>\<open>microceph.enroll_disks_as_osds(paths)\<close>\<close>
  | GetDiskInfo string                      \<comment> \<open>\<open>microceph._get_disk_info(path)\<close>\<close>
  | Run "string list"                       \<comment> \<open>\<open>self._run(cmd)\<close>, a hook tool\<close>
  | Sleep nat                               \<comment> \<open>the wait between two attempts of a retried call\<close>
  | StatusSet status                        \<comment> \<open>\<open>self.charm.status.set(...)\<close>\<close>
  | Defer                                   \<comment> \<open>\<open>event.defer()\<close>\<close>

text \<open>
  What \<open>json.loads(self._run(args))\<close> does: \<open>_run\<close> raises, or its output does not parse
  (\<open>ValueError\<close>), or it parses to a value.
\<close>

datatype 'a loaded = Raises exn | Malformed | Loaded 'a

text \<open>
  The collaborators. Each answer may depend on the moment of the call (the number of
  calls made before it), so that a command can fail once and succeed later. The argument
  of \<open>remove_disk_cmd\<close> is an \<open>int option\<close> because the handler can pass \<open>None\<close>.
  \<open>list_disk_cmd\<close> gives the \<open>(osd, path)\<close> pairs of \<open>ConfiguredDisks\<close>;
  \<open>get_disk_info\<close> gives the \<open>name\<close> of the local device, or \<open>None\<close> for a falsy answer.
\<close>

record env =
  ready_for_service :: bool
  remove_disk_cmd :: "nat \<Rightarrow> int option \<Rightarrow> bool \<Rightarrow> exn option"
  list_disk_cmd :: "nat \<Rightarrow> exn + (int \<times> string) list"
  enroll_disks_as_osds :: "nat \<Rightarrow> string option list \<Rightarrow> exn option"
  get_disk_info :: "nat \<Rightarrow> string \<Rightarrow> exn + string option"
  storage_get_run :: "nat \<Rightarrow> string list \<Rightarrow> string loaded"
  storage_list_run :: "nat \<Rightarrow> string list \<Rightarrow> string list loaded"

record state =
  osd_data :: registry
  trace :: "call list"

type_synonym 'a result = "(exn + 'a) \<times> state"

definition now :: "state \<Rightarrow> nat" where
  "now s = length (trace s)"

definition emit :: "call \<Rightarrow> state \<Rightarrow> state" where
  "emit c s = s\<lparr>trace := trace s @ [c]\<rparr>"

subsection \<open>Stale cleanup: \<open>_clean_stale_osd_data\<close>\<close>

text \<open>
  The loop over a snapshot of the keys. A key the backend does not list gets the value
  \<open>None\<close>; nothing removes a key.
\<close>

fun clean_loop :: "int list \<Rightarrow> int list \<Rightarrow> registry \<Rightarrow> registry" where
  "clean_loop osds [] reg = reg"
| "clean_loop osds (osd_num # keys) reg =
     clean_loop osds keys
       (if osd_num \<notin> set osds then AList.update osd_num None reg else reg)"

definition clean_stale_osd_data :: "env \<Rightarrow> state \<Rightarrow> unit result" where
  "clean_stale_osd_data E s =
     (let s1 = emit ListDiskCmd s in
      case list_disk_cmd E (now s) of
        Inl e \<Rightarrow> (Inl e, s1)
      | Inr disks \<Rightarrow>
          (Inr (),
           s1\<lparr>osd_data := clean_loop (map fst disks) (map fst (osd_data s1)) (osd_data s1)\<rparr>))"

subsection \<open>Removal: \<open>remove_osd\<close>\<close>

text \<open>The \<open>except CalledProcessError as e\<close> clause of \<open>remove_osd\<close>.\<close>

definition remove_osd_except :: "env \<Rightarrow> state \<Rightarrow> bool \<Rightarrow> string \<Rightarrow> unit result" where
  "remove_osd_except E s force stderr =
     (if force then
        (case clean_stale_osd_data E s of
           (Inl e', s') \<Rightarrow> (Inl e', s')
         | (Inr u, s') \<Rightarrow> (Inl (CalledProcessError stderr), s'))
      else (Inl (CalledProcessError stderr), s))"

text \<open>
  The \<open>try\<close> body is the backend command followed by the cleanup, so a
  \<open>CalledProcessError\<close> of either one reaches the \<open>except\<close> clause; any other exception
  leaves \<open>remove_osd\<close> at once.
\<close>

definition remove_osd :: "env \<Rightarrow> state \<Rightarrow> int option \<Rightarrow> bool \<Rightarrow> unit result" where
  "remove_osd E s osd_num force =
     (let s1 = emit (RemoveDiskCmd osd_num force) s in
      case remove_disk_cmd E (now s) osd_num force of
        Some (CalledProcessError stderr) \<Rightarrow> remove_osd_except E s1 force stderr
      | Some e \<Rightarrow> (Inl e, s1)
      | None \<Rightarrow>
          (case clean_stale_osd_data E s1 of
             (Inl (CalledProcessError stderr), s2) \<Rightarrow> remove_osd_except E s2 force stderr
           | (Inl e, s2) \<Rightarrow> (Inl e, s2)
           | (Inr u, s2) \<Rightarrow> (Inr (), s2)))"

subsection \<open>Detaching: \<open>_on_storage_detaching\<close>\<close>

text \<open>Python's \<open>str\<close> on an int or \<open>None\<close>, for the f-string of the warning.\<close>

function str_nat :: "nat \<Rightarrow> string" where
  "str_nat n =
     (if n < 10 then [''0123456789'' ! n]
      else str_nat (n div 10) @ [''0123456789'' ! (n mod 10)])"
  by pat_completeness auto
termination
  by (relation "measure (\<lambda>n. n)") auto

declare str_nat.simps [simp del]

definition str_osd_num :: "int option \<Rightarrow> string" where
  "str_osd_num osd_num =
     (case osd_num of
        None \<Rightarrow> ''None''
      | Some i \<Rightarrow> if i < 0 then CHR ''-'' # str_nat (nat (- i)) else str_nat (nat i))"

definition detach_warning :: "string \<Rightarrow> int option \<Rightarrow> string" where
  "detach_warning full_id osd_num =
     ''Storage '' @ full_id @ '' detached, provide replacement for osd.''
       @ str_osd_num osd_num @ ''.''"

text \<open>
  The block under \<open>with sunbeam_guard.guard(...)\<close>. The guard itself belongs to another
  package; the result \<open>Inl e\<close> is the exception that leaves the block and reaches it, and
  \<open>Inr ()\<close> means that the block ends without one. The \<open>except\<close> clause has no
  \<open>else\<close>: a \<open>CalledProcessError\<close> that is not a safety failure ends there.
\<close>

definition detaching_guarded :: "env \<Rightarrow> state \<Rightarrow> string \<Rightarrow> int option \<Rightarrow> unit result" where
  "detaching_guarded E s full_id osd_num =
     (case remove_osd E s osd_num False of
        (Inl (CalledProcessError stderr), s1) \<Rightarrow>
          if is_safety_failure stderr then
            (case remove_osd E s1 osd_num True of
               (Inl e, s2) \<Rightarrow> (Inl e, s2)
             | (Inr u, s2) \<Rightarrow>
                 (Inl (BlockedExceptionError (detach_warning full_id osd_num)), s2))
          else (Inr (), s1)
      | (Inl e, s1) \<Rightarrow> (Inl e, s1)
      | (Inr u, s1) \<Rightarrow> (Inr (), s1))"

text \<open>The handler: \<open>if osd_num is not None: return\<close>, then the guarded block.\<close>

definition on_storage_detaching :: "env \<Rightarrow> state \<Rightarrow> string \<Rightarrow> unit result" where
  "on_storage_detaching E s full_id =
     (case get_osd_id (osd_data s) full_id of
        Inl e \<Rightarrow> (Inl e, s)
      | Inr osd_num \<Rightarrow>
          if osd_num \<noteq> None then (Inr (), s)
          else detaching_guarded E s full_id osd_num)"

subsection \<open>Storage metadata: \<open>juju_storage_get\<close> and \<open>juju_storage_list\<close>\<close>

text \<open>
  \<open>if x: args.extend(flags + [x])\<close>: nothing is added for \<open>None\<close> and for the empty
  string, which are falsy.
\<close>

definition if_given :: "string list \<Rightarrow> string option \<Rightarrow> string list" where
  "if_given flags x =
     (case x of None \<Rightarrow> [] | Some v \<Rightarrow> if v = [] then [] else flags @ [v])"

definition storage_get_args :: "string option \<Rightarrow> string option \<Rightarrow> string list" where
  "storage_get_args storage_id attribute =
     [''storage-get'', ''--format=json'']
       @ if_given [''-s''] storage_id
       @ if_given [] attribute"

text \<open>
  The body of \<open>juju_storage_get\<close>, one attempt: a \<open>ValueError\<close> gives \<open>None\<close>, any
  other exception leaves the body.
\<close>

definition juju_storage_get_body ::
  "env \<Rightarrow> string option \<Rightarrow> string option \<Rightarrow> state \<Rightarrow> string option result" where
  "juju_storage_get_body E storage_id attribute s =
     (let args = storage_get_args storage_id attribute;
          s1 = emit (Run args) s
      in case storage_get_run E (now s) args of
           Raises e \<Rightarrow> (Inl e, s1)
         | Malformed \<Rightarrow> (Inr None, s1)
         | Loaded v \<Rightarrow> (Inr (Some v), s1))"

text \<open>
  Modelled from the spec: the decorator \<open>retry\<close> of the \<open>tenacity\<close> package, which the
  source imports and applies as \<open>@retry(wait=wait_fixed(5), stop=stop_after_attempt(10))\<close>.
  The decorated function is called; when it raises, the decorator gives up with
  \<open>RetryError\<close> once the number of the attempt has reached the stop bound, and otherwise
  waits the fixed delay and calls again ("retried with a fixed delay up to 10 attempts
  total before surfacing a failure"). Attempts are numbered from 1; the delay and the
  bound are parameters, and the source's values are given where the decorator is applied.
\<close>

function retry ::
  "nat \<Rightarrow> nat \<Rightarrow> nat \<Rightarrow> (state \<Rightarrow> 'a result) \<Rightarrow> state \<Rightarrow> 'a result" where
  "retry wait_fixed stop_after_attempt attempt_number fn s =
     (if isl (fst (fn s)) \<and> attempt_number < stop_after_attempt then
        retry wait_fixed stop_after_attempt (Suc attempt_number) fn
          (emit (Sleep wait_fixed) (snd (fn s)))
      else if isl (fst (fn s)) then (Inl RetryError, snd (fn s))
      else fn s)"
  by pat_completeness auto
termination
  by (relation "measure (\<lambda>(w, n, a, f, s). n - a)") auto

declare retry.simps [simp del]

definition juju_storage_get ::
  "env \<Rightarrow> state \<Rightarrow> string option \<Rightarrow> string option \<Rightarrow> string option result" where
  "juju_storage_get E s storage_id attribute =
     retry 5 10 1 (juju_storage_get_body E storage_id attribute) s"

text \<open>
  \<open>juju_storage_list\<close> carries no decorator. \<open>ValueError\<close> gives \<open>None\<close>, an \<open>OSError\<close>
  with \<open>ENOENT\<close> gives the empty list, any other exception leaves the function.
\<close>

definition juju_storage_list ::
  "env \<Rightarrow> state \<Rightarrow> string option \<Rightarrow> string list option result" where
  "juju_storage_list E s storage_name =
     (let args = [''storage-list'', ''--format=json''] @ if_given [] storage_name;
          s1 = emit (Run args) s
      in case storage_list_run E (now s) args of
           Loaded v \<Rightarrow> (Inr (Some v), s1)
         | Malformed \<Rightarrow> (Inr None, s1)
         | Raises (OSError enoent) \<Rightarrow>
             if enoent then (Inr (Some []), s1) else (Inl (OSError enoent), s1)
         | Raises e \<Rightarrow> (Inl e, s1))"

text \<open>\<open>_fetch_filtered_storages\<close>; iterating over \<open>None\<close> is a \<open>TypeError\<close>.\<close>

definition fetch_filtered_storages :: "env \<Rightarrow> state \<Rightarrow> string list \<Rightarrow> string list result" where
  "fetch_filtered_storages E s directives =
     (case juju_storage_list E s None of
        (Inl e, s1) \<Rightarrow> (Inl e, s1)
      | (Inr None, s1) \<Rightarrow> (Inl TypeError, s1)
      | (Inr (Some devices), s1) \<Rightarrow>
          (Inr (filter (\<lambda>device. split_head device \<in> set directives) devices), s1))"

subsection \<open>Enrollment: \<open>_save_osd_data\<close> and \<open>_enroll_disks_in_batch\<close>\<close>

text \<open>The loop of \<open>_save_osd_data\<close> over \<open>ConfiguredDisks\<close>.\<close>

fun save_loop ::
  "env \<Rightarrow> string \<Rightarrow> string option \<Rightarrow> string option \<Rightarrow> (int \<times> string) list \<Rightarrow> state
     \<Rightarrow> unit result" where
  "save_loop E disk_name db_name disk_path [] s = (Inr (), s)"
| "save_loop E disk_name db_name disk_path ((osd, path) # rest) s =
     (let s1 = emit (GetDiskInfo path) s in
      case get_disk_info E (now s) path of
        Inl e \<Rightarrow> (Inl e, s1)
      | Inr None \<Rightarrow> save_loop E disk_name db_name disk_path rest s1
      | Inr (Some local_name) \<Rightarrow>
          (case disk_path of
             None \<Rightarrow> (Inl TypeError, s1)
           | Some p \<Rightarrow>
               if str_in local_name p then
                 save_loop E disk_name db_name disk_path rest
                   (s1\<lparr>osd_data :=
                         AList.update osd
                           (Some \<lparr>disk_by_id = path, disk = disk_name, db = db_name\<rparr>)
                           (osd_data s1)\<rparr>)
               else save_loop E disk_name db_name disk_path rest s1))"

definition save_osd_data :: "env \<Rightarrow> state \<Rightarrow> string \<Rightarrow> string option \<Rightarrow> unit result" where
  "save_osd_data E s disk_name db_name =
     (case juju_storage_get E s (Some disk_name) (Some ''location'') of
        (Inl e, s1) \<Rightarrow> (Inl e, s1)
      | (Inr disk_path, s1) \<Rightarrow>
          (let s2 = emit ListDiskCmd s1 in
           case list_disk_cmd E (now s1) of
             Inl e \<Rightarrow> (Inl e, s2)
           | Inr disks \<Rightarrow> save_loop E disk_name db_name disk_path disks s2))"

text \<open>
  \<open>map(lambda name: self.juju_storage_get(...), disks)\<close>: one query per disk, in order,
  made when \<open>enroll_disks_as_osds\<close> consumes the iterator; the first one that raises ends
  the enrollment. The trace lists the queries first and then the enrollment request with
  the paths they gave.
\<close>

fun disk_paths :: "env \<Rightarrow> state \<Rightarrow> string list \<Rightarrow> string option list result" where
  "disk_paths E s [] = (Inr [], s)"
| "disk_paths E s (name # rest) =
     (case juju_storage_get E s (Some name) (Some ''location'') of
        (Inl e, s1) \<Rightarrow> (Inl e, s1)
      | (Inr p, s1) \<Rightarrow>
          (case disk_paths E s1 rest of
             (Inl e, s2) \<Rightarrow> (Inl e, s2)
           | (Inr ps, s2) \<Rightarrow> (Inr (p # ps), s2)))"

fun save_all :: "env \<Rightarrow> state \<Rightarrow> string list \<Rightarrow> unit result" where
  "save_all E s [] = (Inr (), s)"
| "save_all E s (d # rest) =
     (case save_osd_data E s d None of
        (Inl e, s1) \<Rightarrow> (Inl e, s1)
      | (Inr u, s1) \<Rightarrow> save_all E s1 rest)"

definition enroll_disks_in_batch :: "env \<Rightarrow> state \<Rightarrow> string list \<Rightarrow> unit result" where
  "enroll_disks_in_batch E s disks =
     (case disk_paths E s disks of
        (Inl e, s1) \<Rightarrow> (Inl e, s1)
      | (Inr paths, s1) \<Rightarrow>
          (let s2 = emit (EnrollDisksAsOsds paths) s1 in
           case enroll_disks_as_osds E (now s1) paths of
             Some e \<Rightarrow> (Inl e, s2)
           | None \<Rightarrow> save_all E s2 disks))"

subsection \<open>Attaching: \<open>_on_osd_standalone_attached\<close>\<close>

text \<open>Python's \<open>not x\<close> for \<open>x\<close> an int or \<open>None\<close>: true for \<open>None\<close> and for 0.\<close>

definition py_not :: "int option \<Rightarrow> bool" where
  "py_not x = (case x of None \<Rightarrow> True | Some i \<Rightarrow> i = 0)"

text \<open>The loop that builds \<open>enroll\<close>.\<close>

fun enroll_loop :: "registry \<Rightarrow> string list \<Rightarrow> string list \<Rightarrow> exn + string list" where
  "enroll_loop reg [] enroll = Inr enroll"
| "enroll_loop reg (storage # rest) enroll =
     (case get_osd_id reg storage of
        Inl e \<Rightarrow> Inl e
      | Inr osd_num \<Rightarrow>
          enroll_loop reg rest (if py_not osd_num then enroll @ [storage] else enroll))"

definition on_osd_standalone_attached :: "env \<Rightarrow> state \<Rightarrow> unit result" where
  "on_osd_standalone_attached E s =
     (if \<not> ready_for_service E then (Inr (), emit Defer s)
      else
        case clean_stale_osd_data E s of
          (Inl e, s1) \<Rightarrow> (Inl e, s1)
        | (Inr u, s1) \<Rightarrow>
            (case fetch_filtered_storages E s1 [standalone] of
               (Inl e, s2) \<Rightarrow> (Inl e, s2)
             | (Inr storages, s2) \<Rightarrow>
                 (case enroll_loop (osd_data s2) storages [] of
                    Inl e \<Rightarrow> (Inl e, s2)
                  | Inr enroll \<Rightarrow>
                      (let s3 = emit (StatusSet (MaintenanceStatus ''Enrolling OSDs'')) s2 in
                       case enroll_disks_in_batch E s3 enroll of
                         (Inl e, s4) \<Rightarrow> (Inl e, s4)
                       | (Inr u, s4) \<Rightarrow>
                           (Inr (), emit (StatusSet (ActiveStatus ''charm is ready'')) s4)))))"

subsection \<open>Concrete collaborators and registries\<close>

text \<open>
  A backend on which every command succeeds, no OSD is configured and no storage is
  attached; the examples below change one answer at a time.
\<close>

definition quiet_env :: env where
  "quiet_env =
     \<lparr>ready_for_service = True,
      remove_disk_cmd = (\<lambda>t osd_num force. None),
      list_disk_cmd = (\<lambda>t. Inr []),
      enroll_disks_as_osds = (\<lambda>t paths. None),
      get_disk_info = (\<lambda>t path. Inr None),
      storage_get_run = (\<lambda>t args. Malformed),
      storage_list_run = (\<lambda>t args. Loaded [])\<rparr>"

text \<open>The backend refuses every removal that is not forced, for safety.\<close>

definition safety_env :: env where
  "safety_env =
     quiet_env\<lparr>remove_disk_cmd :=
       (\<lambda>t osd_num force.
          if force then None
          else Some (CalledProcessError ''Error: need at least 3 OSDs''))\<rparr>"

text \<open>Every removal fails for a reason that is not the safety check.\<close>

definition broken_env :: env where
  "broken_env =
     quiet_env\<lparr>remove_disk_cmd :=
       (\<lambda>t osd_num force. Some (CalledProcessError ''Error: connection refused''))\<rparr>"


text \<open>Removals succeed, the listing of the configured disks fails.\<close>

definition unlisted_env :: env where
  "unlisted_env =
     quiet_env\<lparr>list_disk_cmd := (\<lambda>t. Inl (CalledProcessError ''Error: no cluster''))\<rparr>"

text \<open>The hook tools fail on every call.\<close>

definition unavailable_env :: env where
  "unavailable_env =
     quiet_env\<lparr>storage_get_run := (\<lambda>t args. Raises (CalledProcessError ''not found'')),
               storage_list_run := (\<lambda>t args. Raises (CalledProcessError ''not found''))\<rparr>"

text \<open>The backend lists OSD 3 only.\<close>

definition osd3_env :: env where
  "osd3_env = quiet_env\<lparr>list_disk_cmd := (\<lambda>t. Inr [(3, ''/dev/disk/by-id/a'')])\<rparr>"

text \<open>
  One disk, \<open>osd-standalone/0\<close> at \<open>/dev/vdb\<close>, attached and already enrolled as OSD 0.
\<close>

definition osd0_env :: env where
  "osd0_env =
     quiet_env\<lparr>list_disk_cmd := (\<lambda>t. Inr [(0, ''/dev/disk/by-id/x'')]),
               get_disk_info := (\<lambda>t path. Inr (Some ''vdb'')),
               storage_get_run := (\<lambda>t args. Loaded ''/dev/vdb''),
               storage_list_run := (\<lambda>t args. Loaded [''osd-standalone/0''])\<rparr>"

definition osd_of :: "string \<Rightarrow> string \<Rightarrow> osd_record option" where
  "osd_of path handle = Some \<lparr>disk_by_id = path, disk = handle, db = None\<rparr>"

definition start :: "registry \<Rightarrow> state" where
  "start reg = \<lparr>osd_data = reg, trace = []\<rparr>"

definition reg5 :: registry where
  "reg5 = [(5, osd_of ''/dev/disk/by-id/x'' ''osd-standalone/2'')]"

definition reg37 :: registry where
  "reg37 = [(3, osd_of ''/dev/disk/by-id/a'' ''osd-standalone/0''),
            (7, osd_of ''/dev/disk/by-id/b'' ''osd-standalone/1'')]"

definition reg0 :: registry where
  "reg0 = [(0, osd_of ''/dev/disk/by-id/x'' ''osd-standalone/0'')]"

text \<open>The number of hook tool invocations in a trace.\<close>

definition attempts :: "call list \<Rightarrow> nat" where
  "attempts tr = length (filter (\<lambda>c. case c of Run args \<Rightarrow> True | _ \<Rightarrow> False) tr)"

lemmas handler_defs =
  get_osd_id_def split_head_def standalone_def record_get_def is_safety_failure_def
  now_def emit_def clean_stale_osd_data_def remove_osd_except_def remove_osd_def
  str_osd_num_def detach_warning_def detaching_guarded_def on_storage_detaching_def
  if_given_def storage_get_args_def juju_storage_get_body_def juju_storage_get_def
  juju_storage_list_def fetch_filtered_storages_def save_osd_data_def
  enroll_disks_in_batch_def py_not_def on_osd_standalone_attached_def Let_def

section \<open>Auxiliary facts\<close>

subsection \<open>What a call appends to the trace\<close>

lemma trace_emit: "trace (emit c s) = trace s @ [c]"
  by (simp add: emit_def)

lemma osd_data_emit: "osd_data (emit c s) = osd_data s"
  by (simp add: emit_def)

lemma clean_stale_trace:
  "trace (snd (clean_stale_osd_data E s)) = trace s @ [ListDiskCmd]"
  by (auto simp: clean_stale_osd_data_def Let_def emit_def split: sum.splits)

lemma remove_osd_except_trace:
  "trace (snd (remove_osd_except E s force err)) =
     trace s @ (if force then [ListDiskCmd] else [])"
proof (cases force)
  case True
  obtain r s' where c: "clean_stale_osd_data E s = (r, s')"
    by (cases "clean_stale_osd_data E s")
  have "trace s' = trace s @ [ListDiskCmd]"
    using clean_stale_trace [of E s] c by simp
  with True c show ?thesis
    by (simp add: remove_osd_except_def split: sum.splits)
next
  case False
  then show ?thesis by (simp add: remove_osd_except_def)
qed

lemma remove_osd_failed_trace:
  assumes "remove_disk_cmd E (now s) n force = Some (CalledProcessError err)"
  shows "trace (snd (remove_osd E s n force)) =
           trace s @ RemoveDiskCmd n force # (if force then [ListDiskCmd] else [])"
  using assms
  by (simp add: remove_osd_def Let_def remove_osd_except_trace trace_emit)

lemma remove_osd_ok_trace:
  assumes "remove_disk_cmd E (now s) n force = None"
  shows "\<exists>evs. trace (snd (remove_osd E s n force)) =
           trace s @ RemoveDiskCmd n force # ListDiskCmd # evs"
proof -
  let ?s1 = "emit (RemoveDiskCmd n force) s"
  obtain r s2 where c: "clean_stale_osd_data E ?s1 = (r, s2)"
    by (cases "clean_stale_osd_data E ?s1")
  have t2: "trace s2 = trace s @ [RemoveDiskCmd n force, ListDiskCmd]"
    using clean_stale_trace [of E ?s1] c by (simp add: trace_emit)
  show ?thesis
  proof (cases r)
    case (Inr u)
    with assms c t2 show ?thesis by (simp add: remove_osd_def Let_def)
  next
    case (Inl e)
    show ?thesis
    proof (cases e)
      case (CalledProcessError err)
      with assms c Inl t2 show ?thesis
        by (simp add: remove_osd_def Let_def remove_osd_except_trace)
    qed (use assms c Inl t2 in \<open>simp_all add: remove_osd_def Let_def\<close>)
  qed
qed

lemma remove_osd_other_exn:
  assumes "remove_disk_cmd E (now s) n force = Some e"
    and "\<forall>err. e \<noteq> CalledProcessError err"
  shows "remove_osd E s n force = (Inl e, emit (RemoveDiskCmd n force) s)"
  using assms by (cases e) (simp_all add: remove_osd_def Let_def)

lemma remove_osd_trace:
  "\<exists>evs. trace (snd (remove_osd E s n force)) = trace s @ RemoveDiskCmd n force # evs"
proof (cases "remove_disk_cmd E (now s) n force")
  case None
  from remove_osd_ok_trace [OF this] show ?thesis by blast
next
  case (Some e)
  show ?thesis
  proof (cases "\<exists>err. e = CalledProcessError err")
    case True
    then obtain err where "e = CalledProcessError err" by blast
    with Some remove_osd_failed_trace [of E s n force err] show ?thesis by simp
  next
    case False
    with Some remove_osd_other_exn [of E s n force e] show ?thesis
      by (simp add: trace_emit)
  qed
qed

lemma detaching_guarded_trace:
  "\<exists>evs. trace (snd (detaching_guarded E s full_id n)) =
           trace s @ RemoveDiskCmd n False # evs"
proof -
  obtain r s1 where r1: "remove_osd E s n False = (r, s1)"
    by (cases "remove_osd E s n False")
  obtain evs where t1: "trace s1 = trace s @ RemoveDiskCmd n False # evs"
    using remove_osd_trace [of E s n False] r1 by auto
  obtain r' s2 where r2: "remove_osd E s1 n True = (r', s2)"
    by (cases "remove_osd E s1 n True")
  obtain evs' where t2: "trace s2 = trace s1 @ RemoveDiskCmd n True # evs'"
    using remove_osd_trace [of E s1 n True] r2 by auto
  show ?thesis
    using r1 r2 t1 t2
    by (auto simp: detaching_guarded_def split: sum.splits exn.splits)
qed

subsection \<open>The cleanup loop\<close>

lemma clean_loop_keys:
  "set keys \<subseteq> fst ` set reg \<Longrightarrow> map fst (clean_loop osds keys reg) = map fst reg"
proof (induction keys arbitrary: reg)
  case Nil
  then show ?case by simp
next
  case (Cons k keys)
  have same: "map fst (AList.update k None reg) = map fst reg"
    using Cons.prems by (simp add: update_keys)
  then have "set keys \<subseteq> fst ` set (AList.update k None reg)"
    using Cons.prems by (metis list.set_map set_subset_Cons subset_trans)
  with same show ?case using Cons.IH Cons.prems by simp
qed

lemma clean_loop_map_of:
  "map_of (clean_loop osds keys reg) k =
     (if k \<in> set keys \<and> k \<notin> set osds then Some None else map_of reg k)"
  by (induction keys arbitrary: reg) (auto simp: update_conv')

subsection \<open>The resolution loop\<close>

lemma get_osd_id_loop_filter:
  "get_osd_id_loop d name (filter (\<lambda>kv. snd kv \<noteq> None) reg) = get_osd_id_loop d name reg"
  by (induction d name reg rule: get_osd_id_loop.induct) (auto split: sum.splits)

lemma get_osd_id_loop_Some:
  "get_osd_id_loop d name reg = Inr (Some k) \<Longrightarrow> \<exists>v. (k, Some v) \<in> set reg"
  by (induction d name reg rule: get_osd_id_loop.induct) (auto split: sum.splits if_splits)

subsection \<open>A retried call that never succeeds\<close>

lemma retry_exhausted:
  assumes fails: "\<And>s'. isl (fst (fn s'))"
    and logs: "\<And>s'. snd (fn s') = emit c s'"
  shows "a \<le> n \<Longrightarrow> 0 < n \<Longrightarrow> k = n - a \<Longrightarrow>
    retry w n a fn s =
      (Inl RetryError, s\<lparr>trace := trace s @ concat (replicate k [c, Sleep w]) @ [c]\<rparr>)"
proof (induction k arbitrary: a s)
  case 0
  then have "\<not> a < n" by simp
  then show ?case
    by (subst retry.simps) (simp add: fails logs emit_def)
next
  case (Suc k)
  then have lt: "a < n" and k: "k = n - Suc a" and le: "Suc a \<le> n" by simp_all
  have "retry w n a fn s = retry w n (Suc a) fn (emit (Sleep w) (emit c s))"
    by (subst retry.simps) (simp add: fails logs lt)
  also have "\<dots> = (Inl RetryError,
      (emit (Sleep w) (emit c s))\<lparr>trace := trace (emit (Sleep w) (emit c s))
         @ concat (replicate k [c, Sleep w]) @ [c]\<rparr>)"
    using Suc.IH [OF le Suc.prems(2) k] .
  finally show ?case by (simp add: emit_def)
qed

section \<open>Properties\<close>

subsection \<open>Detaching\<close>

text \<open>
  C1. On a storage-detaching notification the handler resolves the handle with
  \<open>_get_osd_id\<close> and then tests \<open>if osd_num is not None: return\<close>. When the handle
  resolves to an OSD number the handler therefore returns at once, with no backend call
  and the state untouched; when it resolves to \<open>None\<close> the handler goes on, and its first
  call is \<open>remove_disk_cmd(None, force=False)\<close>. The removal is attempted exactly when no
  OSD is associated with the handle: the gate is the opposite of the one the comment above
  it announces.
\<close>

theorem detaching_gate:
  "(get_osd_id (osd_data s) full_id = Inr (Some n) \<longrightarrow>
      on_storage_detaching E s full_id = (Inr (), s))
   \<and> (get_osd_id (osd_data s) full_id = Inr None \<longrightarrow>
      (\<exists>evs. trace (snd (on_storage_detaching E s full_id)) =
                trace s @ RemoveDiskCmd None False # evs))"
  using detaching_guarded_trace [of E s full_id None]
  by (simp add: on_storage_detaching_def)

theorem detaching_gate_witness:
  "get_osd_id (osd_data (start reg5)) ''osd-standalone/2'' = Inr (Some 5)
   \<and> on_storage_detaching quiet_env (start reg5) ''osd-standalone/2'' = (Inr (), start reg5)
   \<and> get_osd_id (osd_data (start reg5)) ''osd-standalone/9'' = Inr None
   \<and> (\<exists>evs. trace (snd (on_storage_detaching quiet_env (start reg5) ''osd-standalone/9'')) =
         RemoveDiskCmd None False # evs)"
  using detaching_gate [where s = "start reg5" and full_id = "''osd-standalone/2''"
      and n = 5 and E = quiet_env]
    detaching_gate [where s = "start reg5" and full_id = "''osd-standalone/9''"
      and E = quiet_env]
  by (simp add: get_osd_id_def split_head_def standalone_def record_get_def quiet_env_def start_def reg5_def osd_of_def)

text \<open>
  C2. With the registry \<open>{5: {disk: "osd-standalone/2", ...}}\<close> and a backend that refuses
  every removal that is not forced with \<open>need at least 3 OSDs\<close>, detaching
  \<open>osd-standalone/2\<close> returns without any call: neither the removal that is not forced nor
  the forced one is made, and nothing is raised. The guarded block, entered with OSD 5,
  would make the two removals in that order, run the cleanup and raise the blocking
  condition that names \<open>osd.5\<close>; the handler does not enter it for a handle that has an OSD.
\<close>

theorem detaching_known_osd_no_escalation:
  "on_storage_detaching safety_env (start reg5) ''osd-standalone/2'' = (Inr (), start reg5)
   \<and> detaching_guarded safety_env (start reg5) ''osd-standalone/2'' (Some 5) =
       (Inl (BlockedExceptionError
          ''Storage osd-standalone/2 detached, provide replacement for osd.5.''),
        \<lparr>osd_data = [(5, None)],
         trace = [RemoveDiskCmd (Some 5) False, RemoveDiskCmd (Some 5) True, ListDiskCmd]\<rparr>)"
  by (simp add: handler_defs safety_env_def quiet_env_def start_def reg5_def osd_of_def str_nat.simps)




subsection \<open>Removal and cleanup\<close>

text \<open>
  C7, as the code has it. After a removal that succeeds, \<open>remove_osd\<close> runs the cleanup
  on the state the removal left, and what the cleanup gives (its state, and its outcome)
  is what \<open>remove_osd\<close> gives; the one exception is a forced call whose cleanup fails
  with \<open>CalledProcessError\<close>, where the \<open>except\<close> clause runs the cleanup once more and
  an error leaves \<open>remove_osd\<close>. After a forced removal that fails with
  \<open>CalledProcessError\<close>, the cleanup is run too, and the error then leaves \<open>remove_osd\<close>
  from the state the cleanup produced. After a failed removal that is not forced, no
  cleanup runs: the error leaves \<open>remove_osd\<close> with the removal as the only call made.
\<close>

theorem remove_osd_cleanup:
  "(remove_disk_cmd E (now s) osd_num force = None
      \<and> (\<not> force \<or> (\<forall>err. fst (clean_stale_osd_data E (emit (RemoveDiskCmd osd_num force) s))
                            \<noteq> Inl (CalledProcessError err))) \<longrightarrow>
      remove_osd E s osd_num force =
        clean_stale_osd_data E (emit (RemoveDiskCmd osd_num force) s))
   \<and> (remove_disk_cmd E (now s) osd_num True = None
      \<and> fst (clean_stale_osd_data E (emit (RemoveDiskCmd osd_num True) s))
            = Inl (CalledProcessError err') \<longrightarrow>
        isl (fst (remove_osd E s osd_num True))
        \<and> snd (remove_osd E s osd_num True) =
            snd (clean_stale_osd_data E
                   (snd (clean_stale_osd_data E (emit (RemoveDiskCmd osd_num True) s)))))
   \<and> (remove_disk_cmd E (now s) osd_num force = None \<longrightarrow>
      (\<exists>evs. trace (snd (remove_osd E s osd_num force)) =
                trace s @ RemoveDiskCmd osd_num force # ListDiskCmd # evs))
   \<and> (remove_disk_cmd E (now s) osd_num True = Some (CalledProcessError stderr) \<longrightarrow>
        isl (fst (remove_osd E s osd_num True))
        \<and> snd (remove_osd E s osd_num True) =
            snd (clean_stale_osd_data E (emit (RemoveDiskCmd osd_num True) s)))
   \<and> (remove_disk_cmd E (now s) osd_num False = Some (CalledProcessError stderr) \<longrightarrow>
        remove_osd E s osd_num False =
          (Inl (CalledProcessError stderr), emit (RemoveDiskCmd osd_num False) s))"
proof (intro conjI impI)
  let ?s1 = "emit (RemoveDiskCmd osd_num force) s"
  assume a: "remove_disk_cmd E (now s) osd_num force = None
      \<and> (\<not> force \<or> (\<forall>err. fst (clean_stale_osd_data E ?s1) \<noteq> Inl (CalledProcessError err)))"
  obtain r s2 where c: "clean_stale_osd_data E ?s1 = (r, s2)"
    by (cases "clean_stale_osd_data E ?s1")
  show "remove_osd E s osd_num force = clean_stale_osd_data E ?s1"
  proof (cases r)
    case (Inr u)
    with a c show ?thesis by (simp add: remove_osd_def Let_def)
  next
    case (Inl e)
    show ?thesis
    proof (cases e)
      case (CalledProcessError err)
      with a c Inl have "\<not> force" by auto
      with a c Inl CalledProcessError show ?thesis
        by (simp add: remove_osd_def Let_def remove_osd_except_def)
    qed (use a c Inl in \<open>simp_all add: remove_osd_def Let_def\<close>)
  qed
next
  let ?s1 = "emit (RemoveDiskCmd osd_num True) s"
  assume a: "remove_disk_cmd E (now s) osd_num True = None
      \<and> fst (clean_stale_osd_data E ?s1) = Inl (CalledProcessError err')"
  obtain r s2 where c: "clean_stale_osd_data E ?s1 = (r, s2)"
    by (cases "clean_stale_osd_data E ?s1")
  with a have r: "r = Inl (CalledProcessError err')" by simp
  from a c r show "isl (fst (remove_osd E s osd_num True))"
    by (simp add: remove_osd_def Let_def remove_osd_except_def split: prod.splits sum.splits)
  from a c r show "snd (remove_osd E s osd_num True) =
      snd (clean_stale_osd_data E (snd (clean_stale_osd_data E ?s1)))"
    by (simp add: remove_osd_def Let_def remove_osd_except_def split: prod.splits sum.splits)
next
  assume "remove_disk_cmd E (now s) osd_num force = None"
  then show "\<exists>evs. trace (snd (remove_osd E s osd_num force)) =
                trace s @ RemoveDiskCmd osd_num force # ListDiskCmd # evs"
    by (rule remove_osd_ok_trace)
next
  assume a: "remove_disk_cmd E (now s) osd_num True = Some (CalledProcessError stderr)"
  then show "isl (fst (remove_osd E s osd_num True))"
    by (simp add: remove_osd_def Let_def remove_osd_except_def split: prod.splits sum.splits)
  from a show "snd (remove_osd E s osd_num True) =
            snd (clean_stale_osd_data E (emit (RemoveDiskCmd osd_num True) s))"
    by (simp add: remove_osd_def Let_def remove_osd_except_def split: prod.splits sum.splits)
next
  assume "remove_disk_cmd E (now s) osd_num False = Some (CalledProcessError stderr)"
  then show "remove_osd E s osd_num False =
          (Inl (CalledProcessError stderr), emit (RemoveDiskCmd osd_num False) s)"
    by (simp add: remove_osd_def Let_def remove_osd_except_def)
qed

theorem remove_osd_cleanup_witness:
  "remove_disk_cmd quiet_env (now (start reg5)) (Some 5) False = None
   \<and> clean_stale_osd_data quiet_env (emit (RemoveDiskCmd (Some 5) False) (start reg5)) =
       (Inr (), \<lparr>osd_data = [(5, None)], trace = [RemoveDiskCmd (Some 5) False, ListDiskCmd]\<rparr>)
   \<and> remove_osd quiet_env (start reg5) (Some 5) False =
       (Inr (), \<lparr>osd_data = [(5, None)], trace = [RemoveDiskCmd (Some 5) False, ListDiskCmd]\<rparr>)
   \<and> remove_disk_cmd unlisted_env (now (start reg5)) (Some 5) True = None
   \<and> fst (clean_stale_osd_data unlisted_env (emit (RemoveDiskCmd (Some 5) True) (start reg5))) =
       Inl (CalledProcessError ''Error: no cluster'')
   \<and> isl (fst (remove_osd unlisted_env (start reg5) (Some 5) True))
   \<and> snd (remove_osd unlisted_env (start reg5) (Some 5) True) =
       \<lparr>osd_data = reg5, trace = [RemoveDiskCmd (Some 5) True, ListDiskCmd, ListDiskCmd]\<rparr>
   \<and> remove_disk_cmd broken_env (now (start reg5)) (Some 5) True =
       Some (CalledProcessError ''Error: connection refused'')
   \<and> snd (remove_osd broken_env (start reg5) (Some 5) True) =
       \<lparr>osd_data = [(5, None)], trace = [RemoveDiskCmd (Some 5) True, ListDiskCmd]\<rparr>
   \<and> remove_osd broken_env (start reg5) (Some 5) False =
       (Inl (CalledProcessError ''Error: connection refused''),
        \<lparr>osd_data = reg5, trace = [RemoveDiskCmd (Some 5) False]\<rparr>)"
  using remove_osd_cleanup [where E = quiet_env and s = "start reg5" and osd_num = "Some 5"
      and force = False]
    remove_osd_cleanup [where E = unlisted_env and s = "start reg5" and osd_num = "Some 5"
      and err' = "''Error: no cluster''"]
    remove_osd_cleanup [where E = broken_env and s = "start reg5" and osd_num = "Some 5"
      and stderr = "''Error: connection refused''"]
  by (simp add: now_def emit_def clean_stale_osd_data_def Let_def
      broken_env_def unlisted_env_def quiet_env_def start_def reg5_def osd_of_def)

text \<open>
  C7, as the claim states it, fails: when the removal of OSD 5 is not forced and fails, the
  trace of \<open>remove_osd\<close> holds no listing call, and the stale entry is still in the
  registry although the backend lists no OSD.
\<close>

theorem remove_osd_cleanup_counterexample:
  "ListDiskCmd \<notin> set (trace (snd (remove_osd broken_env (start reg5) (Some 5) False)))
   \<and> osd_data (snd (remove_osd broken_env (start reg5) (Some 5) False)) = reg5
   \<and> list_disk_cmd broken_env 1 = Inr []"
  by (simp add: handler_defs broken_env_def quiet_env_def start_def reg5_def osd_of_def)

text \<open>
  C3, as the code has it. When the backend listing succeeds, \<open>_clean_stale_osd_data\<close>
  succeeds and leaves the keys of the registry as they were, in the same order; a key of
  the registry that the listing does not hold now maps to \<open>None\<close>, and every other key
  maps to what it mapped to before. No key is dropped and none is added.
\<close>

theorem clean_stale_tombstones:
  assumes "list_disk_cmd E (now s) = Inr disks"
  shows "fst (clean_stale_osd_data E s) = Inr ()
    \<and> map fst (osd_data (snd (clean_stale_osd_data E s))) = map fst (osd_data s)
    \<and> map_of (osd_data (snd (clean_stale_osd_data E s))) k =
        (if k \<in> fst ` set (osd_data s) \<and> k \<notin> fst ` set disks then Some None
         else map_of (osd_data s) k)"
  using assms
  by (simp add: clean_stale_osd_data_def Let_def osd_data_emit clean_loop_keys clean_loop_map_of)

theorem clean_stale_tombstones_witness:
  "list_disk_cmd osd3_env (now (start reg37)) = Inr [(3, ''/dev/disk/by-id/a'')]
   \<and> fst (clean_stale_osd_data osd3_env (start reg37)) = Inr ()
   \<and> map fst (osd_data (snd (clean_stale_osd_data osd3_env (start reg37)))) = [3, 7]
   \<and> map_of (osd_data (snd (clean_stale_osd_data osd3_env (start reg37)))) 7 = Some None
   \<and> map_of (osd_data (snd (clean_stale_osd_data osd3_env (start reg37)))) 3 =
       Some (osd_of ''/dev/disk/by-id/a'' ''osd-standalone/0'')"
  using clean_stale_tombstones [where E = osd3_env and s = "start reg37"
      and disks = "[(3, ''/dev/disk/by-id/a'')]" and k = 7]
    clean_stale_tombstones [where E = osd3_env and s = "start reg37"
      and disks = "[(3, ''/dev/disk/by-id/a'')]" and k = 3]
  by (simp add: osd3_env_def quiet_env_def start_def reg37_def now_def)

text \<open>
  C3, as the claim states it, fails on its own example: with the registry
  \<open>{3: record, 7: record}\<close> and the listing \<open>[{osd: 3}]\<close>, the registry after the cleanup
  still has the key 7, with the value \<open>None\<close>.
\<close>

theorem clean_stale_keys_counterexample:
  "\<not> (fst ` set (osd_data (snd (clean_stale_osd_data osd3_env (start reg37)))) = {3})"
  by (simp add: handler_defs osd3_env_def quiet_env_def start_def reg37_def osd_of_def)

subsection \<open>Handle resolution\<close>

text \<open>
  C8. For the registry holding exactly
  \<open>{5: {disk_by_id: "/dev/disk/by-id/x", disk: "osd-standalone/2", db: None}}\<close>,
  \<open>_get_osd_id("osd-standalone/2")\<close> returns 5 and \<open>_get_osd_id("osd-standalone/9")\<close>
  returns \<open>None\<close>.
\<close>

theorem get_osd_id_example:
  "get_osd_id
     [(5, Some \<lparr>disk_by_id = ''/dev/disk/by-id/x'', disk = ''osd-standalone/2'', db = None\<rparr>)]
     ''osd-standalone/2'' = Inr (Some 5)
   \<and> get_osd_id
     [(5, Some \<lparr>disk_by_id = ''/dev/disk/by-id/x'', disk = ''osd-standalone/2'', db = None\<rparr>)]
     ''osd-standalone/9'' = Inr None"
  by (simp add: get_osd_id_def split_head_def standalone_def record_get_def)

text \<open>
  C10. \<open>_get_osd_id\<close> treats an entry whose value is \<open>None\<close> as an absent one: removing
  all such entries from the registry changes no answer (and no exception). A key it
  returns is the key of an entry that holds a record; in a registry with distinct keys,
  as a dict is, that key has no \<open>None\<close> entry.
\<close>

theorem get_osd_id_tombstones:
  "get_osd_id (filter (\<lambda>kv. snd kv \<noteq> None) reg) name = get_osd_id reg name
   \<and> (get_osd_id reg name = Inr (Some k) \<longrightarrow> (\<exists>v. (k, Some v) \<in> set reg))
   \<and> (get_osd_id reg name = Inr (Some k) \<and> distinct (map fst reg) \<longrightarrow> (k, None) \<notin> set reg)"
proof -
  have a: "get_osd_id (filter (\<lambda>kv. snd kv \<noteq> None) reg) name = get_osd_id reg name"
    by (simp only: get_osd_id_def Let_def get_osd_id_loop_filter)
  have b: "\<exists>v. (k, Some v) \<in> set reg" if "get_osd_id reg name = Inr (Some k)"
    using that get_osd_id_loop_Some by (auto simp: get_osd_id_def Let_def)
  have c: "(k, None) \<notin> set reg"
    if "get_osd_id reg name = Inr (Some k)" "distinct (map fst reg)"
  proof
    assume n: "(k, None) \<in> set reg"
    from b [OF that(1)] obtain v where "(k, Some v) \<in> set reg" ..
    with n that(2) show False
      by (metis eq_key_imp_eq_value option.distinct(1))
  qed
  from a b c show ?thesis by blast
qed

theorem get_osd_id_tombstones_witness:
  "get_osd_id ((7, None) # reg5) ''osd-standalone/2'' = Inr (Some 5)
   \<and> get_osd_id (filter (\<lambda>kv. snd kv \<noteq> None) ((7, None) # reg5)) ''osd-standalone/2''
       = Inr (Some 5)
   \<and> distinct (map fst ((7, None) # reg5))
   \<and> (5, None) \<notin> set ((7, None) # reg5)
   \<and> (\<exists>v. (5, Some v) \<in> set ((7, None) # reg5))"
  using get_osd_id_tombstones [where reg = "(7, None) # reg5"
      and name = "''osd-standalone/2''" and k = 5]
  by (simp add: get_osd_id_def split_head_def standalone_def record_get_def reg5_def osd_of_def)

subsection \<open>Attaching\<close>

text \<open>
  C9. When the service is not ready, the attach handler defers the event and stops: it
  returns normally, the only thing it does is \<open>event.defer()\<close> (no backend call, no
  metadata query), and the registry is as it was.
\<close>

theorem attached_not_ready:
  assumes "\<not> ready_for_service E"
  shows "on_osd_standalone_attached E s = (Inr (), emit Defer s)
    \<and> osd_data (snd (on_osd_standalone_attached E s)) = osd_data s
    \<and> trace (snd (on_osd_standalone_attached E s)) = trace s @ [Defer]"
  using assms by (simp add: on_osd_standalone_attached_def emit_def)

theorem attached_not_ready_witness:
  "\<not> ready_for_service (osd0_env\<lparr>ready_for_service := False\<rparr>)
   \<and> on_osd_standalone_attached (osd0_env\<lparr>ready_for_service := False\<rparr>) (start reg0) =
       (Inr (), \<lparr>osd_data = reg0, trace = [Defer]\<rparr>)"
  using attached_not_ready [where E = "osd0_env\<lparr>ready_for_service := False\<rparr>"
      and s = "start reg0"]
  by (simp add: emit_def start_def)

text \<open>
  C4. The enrollment set is built with \<open>if not self._get_osd_id(name=storage)\<close>, and
  \<open>not 0\<close> is true. With \<open>osd-standalone/0\<close> already enrolled as OSD 0, still listed by the
  backend, a redelivered attach event resolves the handle to 0, puts it in the enrollment
  set all the same, and submits its disk to \<open>enroll_disks_as_osds\<close> again.
\<close>

theorem attached_osd_zero_enrolled_again:
  "get_osd_id reg0 ''osd-standalone/0'' = Inr (Some 0)
   \<and> enroll_loop reg0 [''osd-standalone/0''] [] = Inr [''osd-standalone/0'']
   \<and> on_osd_standalone_attached osd0_env (start reg0) =
       (Inr (),
        \<lparr>osd_data = reg0,
         trace =
           [ListDiskCmd,
            Run [''storage-list'', ''--format=json''],
            StatusSet (MaintenanceStatus ''Enrolling OSDs''),
            Run [''storage-get'', ''--format=json'', ''-s'', ''osd-standalone/0'', ''location''],
            EnrollDisksAsOsds [Some ''/dev/vdb''],
            Run [''storage-get'', ''--format=json'', ''-s'', ''osd-standalone/0'', ''location''],
            ListDiskCmd,
            GetDiskInfo ''/dev/disk/by-id/x'',
            StatusSet (ActiveStatus ''charm is ready'')]\<rparr>)"
  by (simp add: handler_defs osd0_env_def quiet_env_def start_def reg0_def osd_of_def retry.simps)

subsection \<open>Retried metadata queries\<close>

text \<open>
  C6, as the code has it. \<open>juju_storage_get\<close> is retried: when the hook tool raises on
  every call, it is run 10 times with a wait of 5 after each of the first 9 runs, and then
  \<open>RetryError\<close> is raised. \<open>juju_storage_list\<close> carries no retry decorator: an exception
  of its single run (other than the \<open>ENOENT\<close> it turns into an empty list) is raised at
  once, with no wait and no second run.
\<close>

theorem storage_retry_bound:
  "((\<forall>t. \<exists>e. storage_get_run E t (storage_get_args storage_id attribute) = Raises e) \<longrightarrow>
      juju_storage_get E s storage_id attribute =
        (Inl RetryError,
         s\<lparr>trace := trace s
              @ concat (replicate 9 [Run (storage_get_args storage_id attribute), Sleep 5])
              @ [Run (storage_get_args storage_id attribute)]\<rparr>))
   \<and> (storage_list_run E (now s) ([''storage-list'', ''--format=json''] @ if_given [] storage_name)
         = Raises e \<and> e \<noteq> OSError True \<longrightarrow>
      juju_storage_list E s storage_name =
        (Inl e, emit (Run ([''storage-list'', ''--format=json''] @ if_given [] storage_name)) s))"
proof (intro conjI impI)
  let ?args = "storage_get_args storage_id attribute"
  assume a: "\<forall>t. \<exists>e. storage_get_run E t ?args = Raises e"
  have fails: "isl (fst (juju_storage_get_body E storage_id attribute s'))" for s'
  proof -
    from a obtain e where "storage_get_run E (now s') ?args = Raises e" by blast
    then show ?thesis by (simp add: juju_storage_get_body_def Let_def)
  qed
  have logs: "snd (juju_storage_get_body E storage_id attribute s') = emit (Run ?args) s'" for s'
    by (simp add: juju_storage_get_body_def Let_def split: loaded.splits)
  show "juju_storage_get E s storage_id attribute =
        (Inl RetryError,
         s\<lparr>trace := trace s @ concat (replicate 9 [Run ?args, Sleep 5]) @ [Run ?args]\<rparr>)"
    unfolding juju_storage_get_def
    by (rule retry_exhausted [OF fails logs]) simp_all
next
  assume "storage_list_run E (now s) ([''storage-list'', ''--format=json''] @ if_given [] storage_name)
         = Raises e \<and> e \<noteq> OSError True"
  then show "juju_storage_list E s storage_name =
        (Inl e, emit (Run ([''storage-list'', ''--format=json''] @ if_given [] storage_name)) s)"
    by (cases e) (simp_all add: juju_storage_list_def Let_def)
qed

theorem storage_retry_bound_witness:
  "(\<forall>t. \<exists>e. storage_get_run unavailable_env t
        (storage_get_args (Some ''osd-standalone/0'') (Some ''location'')) = Raises e)
   \<and> fst (juju_storage_get unavailable_env (start []) (Some ''osd-standalone/0'')
        (Some ''location'')) = Inl RetryError
   \<and> attempts (trace (snd (juju_storage_get unavailable_env (start [])
        (Some ''osd-standalone/0'') (Some ''location'')))) = 10
   \<and> length (filter (\<lambda>c. c = Sleep 5) (trace (snd (juju_storage_get unavailable_env (start [])
        (Some ''osd-standalone/0'') (Some ''location''))))) = 9
   \<and> juju_storage_list unavailable_env (start []) None =
       (Inl (CalledProcessError ''not found''),
        \<lparr>osd_data = [], trace = [Run [''storage-list'', ''--format=json'']]\<rparr>)"
  using storage_retry_bound [where E = unavailable_env and s = "start []"
      and storage_id = "Some ''osd-standalone/0''" and attribute = "Some ''location''"
      and storage_name = None and e = "CalledProcessError ''not found''"]
  by (simp add: unavailable_env_def quiet_env_def start_def attempts_def now_def emit_def
      if_given_def storage_get_args_def eval_nat_numeral)

text \<open>
  C6, as the claim states it, fails for the listing: when the hook tool raises on every
  call, \<open>juju_storage_list\<close> runs it once, not 10 times, and never waits.
\<close>

theorem storage_list_retry_counterexample:
  "\<not> (attempts (trace (snd (juju_storage_list unavailable_env (start []) None))) = 10)
   \<and> Sleep 5 \<notin> set (trace (snd (juju_storage_list unavailable_env (start []) None)))"
  by (simp add: handler_defs unavailable_env_def quiet_env_def start_def attempts_def)

end
